theory Spec2Isabelle
  imports Main "HOL-Library.AList"
begin

section \<open>The Unity bridge client of Server/src/unity/mcpUnity.ts\<close>

text \<open>
  The class \<open>McpUnity\<close> is embedded by explicit state passing. Everything the class reads
  from outside (the process environment, the output of subprocesses, fresh promise and
  timer handles, what the socket library does) is an argument of the model.
  Strings are \<open>char list\<close>; the white space that \<open>trim\<close> and \<open>parseInt\<close> skip is
  the ASCII part of the ECMAScript white space set.
\<close>

subsection \<open>JavaScript numbers, \<open>trim\<close> and \<open>parseInt(s, 10)\<close>\<close>

text \<open>
  A port is a JavaScript number. Only integers and \<open>NaN\<close> can come out of
  \<open>parseInt\<close>; an integer is kept exactly (a double is exact up to \<open>2 ^ 53\<close>, far above
  any port), and \<open>-0\<close> is identified with \<open>0\<close>.
\<close>

datatype number = NaN | Num int

definition is_space :: "char \<Rightarrow> bool" where
  "is_space c = (c \<in> set [CHR 0x09, CHR 0x0A, CHR 0x0B, CHR 0x0C, CHR 0x0D, CHR 0x20])"

definition is_digit :: "char \<Rightarrow> bool" where
  "is_digit c = (let n = (of_char c :: nat) in 48 \<le> n \<and> n \<le> 57)"

definition trim :: "string \<Rightarrow> string" where
  "trim s = rev (dropWhile is_space (rev (dropWhile is_space s)))"

definition digits_value :: "string \<Rightarrow> nat" where
  "digits_value ds = foldl (\<lambda>acc c. acc * 10 + ((of_char c :: nat) - 48)) 0 ds"

text \<open>
  \<open>parseInt(s, 10)\<close>: skip leading white space, read one optional sign, then the longest
  run of decimal digits; no digit at all gives \<open>NaN\<close>. Whatever follows the digits is
  ignored.
\<close>

definition parseInt :: "string \<Rightarrow> number" where
  "parseInt s =
     (let S = dropWhile is_space s;
          sign = (case S of c # _ \<Rightarrow> if c = CHR ''-'' then - 1 else (1 :: int) | [] \<Rightarrow> 1);
          S' = (case S of c # r \<Rightarrow> if c = CHR ''-'' \<or> c = CHR ''+'' then r else S | [] \<Rightarrow> S);
          Z = takeWhile is_digit S'
      in if Z = [] then NaN else Num (sign * int (digits_value Z)))"

subsection \<open>The endpoint resolver: \<open>determinePort\<close> and the platform probes\<close>

datatype level = Debug | Info | Warn | Error

text \<open>
  A JavaScript exception: the \<open>TypeError\<close> of a property read on \<open>null\<close> or
  \<open>undefined\<close>, or any other exception, with its message.
\<close>

datatype js_error = TypeError | Thrown string

datatype platform = Win32 | Darwin | OtherPlatform

text \<open>
  The external environment of one resolution. \<open>execSync\<close> either returns the standard
  output of the command or throws (a non-zero exit status, a spawn failure), so each command
  is a value of \<open>js_error + string\<close>. \<open>registry_UNITY_PORT\<close> is what the registry query
  hands to its callback: an error, or the value of the item.
\<close>

record environment =
  env_UNITY_PORT :: "string option"
  process_platform :: platform
  launchctl_getenv :: "js_error + string"
  shell_profile_echo :: "js_error + string"
  printenv :: "js_error + string"
  registry_UNITY_PORT :: "js_error + string"

text \<open>
  \<open>getUnityPortFromMacOS\<close>: the launchd value when it is not empty, else the value echoed
  after sourcing the shell profiles; any exception is logged at debug level and gives the
  empty string. The second component is the list of log calls.
\<close>

definition getUnityPortFromMacOS :: "environment \<Rightarrow> string \<times> level list" where
  "getUnityPortFromMacOS e =
     (case launchctl_getenv e of
        Inl err \<Rightarrow> ('''', [Debug])
      | Inr out \<Rightarrow>
          (let launchdPort = trim out
           in if launchdPort \<noteq> '''' then (launchdPort, [])
              else (case shell_profile_echo e of
                      Inl err \<Rightarrow> ('''', [Debug])
                    | Inr out2 \<Rightarrow> (trim out2, []))))"

text \<open>
  \<open>getUnityPortFromWindowsRegistry\<close>. The local variable \<open>result\<close> starts as the empty
  string; \<open>regKey.get\<close> starts the registry query and keeps the callback for the moment
  the query has finished, which is a later turn of the event loop; the function then returns
  \<open>result\<close>. The frame below holds the local variable and the callbacks that wait;
  \<open>registry_callback\<close> is the body of the callback, run by \<open>run_queued\<close> after the
  return.
\<close>

record registry_frame =
  result :: string
  queued :: "(js_error + string) list"
  logged :: "level list"

definition regKey_get :: "environment \<Rightarrow> registry_frame \<Rightarrow> registry_frame" where
  "regKey_get e f = f\<lparr>queued := queued f @ [registry_UNITY_PORT e]\<rparr>"

definition registry_callback :: "(js_error + string) \<Rightarrow> registry_frame \<Rightarrow> registry_frame" where
  "registry_callback arg f =
     (case arg of
        Inl err \<Rightarrow> f\<lparr>logged := logged f @ [Error]\<rparr>
      | Inr item_value \<Rightarrow> f\<lparr>result := item_value\<rparr>)"

definition run_queued :: "registry_frame \<Rightarrow> registry_frame" where
  "run_queued f = fold registry_callback (queued f) (f\<lparr>queued := []\<rparr>)"

definition getUnityPortFromWindowsRegistry :: "environment \<Rightarrow> string \<times> registry_frame" where
  "getUnityPortFromWindowsRegistry e =
     (let f0 = \<lparr>result = '''', queued = [], logged = []\<rparr>;
          f1 = regKey_get e f0
      in (result f1, f1))"

text \<open>\<open>getUnityPortFromUnixRegistry\<close>: no \<open>try\<close> here, the exception of \<open>execSync\<close> escapes.\<close>

definition getUnityPortFromUnixRegistry :: "environment \<Rightarrow> js_error + string" where
  "getUnityPortFromUnixRegistry e =
     (case printenv e of Inl err \<Rightarrow> Inl err | Inr out \<Rightarrow> Inr (trim out))"

definition getPlatformSpecificPort :: "environment \<Rightarrow> (js_error + string) \<times> level list" where
  "getPlatformSpecificPort e =
     (case process_platform e of
        Win32 \<Rightarrow> (Inr (fst (getUnityPortFromWindowsRegistry e)), [])
      | Darwin \<Rightarrow> (let (v, logs) = getUnityPortFromMacOS e in (Inr v, logs))
      | OtherPlatform \<Rightarrow> (getUnityPortFromUnixRegistry e, []))"

definition DEFAULT_PORT :: number where
  "DEFAULT_PORT = Num 8090"

text \<open>
  \<open>determinePort\<close>. \<open>if (envPort)\<close> is the truthiness of a string or \<open>undefined\<close>:
  present and not empty. The result is a sum so that an exception that left the function
  would be a value \<open>Inl\<close>.
\<close>

definition determinePort :: "environment \<Rightarrow> (js_error + number) \<times> level list" where
  "determinePort e =
     (case env_UNITY_PORT e of
        Some envPort \<Rightarrow>
          if envPort \<noteq> '''' then (Inr (parseInt envPort), [])
          else (case getPlatformSpecificPort e of
                  (Inr registryPort, logs) \<Rightarrow>
                    if registryPort \<noteq> '''' then (Inr (parseInt registryPort), logs)
                    else (Inr DEFAULT_PORT, logs)
                | (Inl error, logs) \<Rightarrow> (Inr DEFAULT_PORT, logs @ [Warn]))
      | None \<Rightarrow>
          (case getPlatformSpecificPort e of
             (Inr registryPort, logs) \<Rightarrow>
               if registryPort \<noteq> '''' then (Inr (parseInt registryPort), logs)
               else (Inr DEFAULT_PORT, logs)
           | (Inl error, logs) \<Rightarrow> (Inr DEFAULT_PORT, logs @ [Warn])))"

subsection \<open>Values parsed from a frame\<close>

text \<open>
  What \<open>JSON.parse\<close> returns, with \<open>undefined\<close> added for an absent property. An object
  is its list of own properties; \<open>JSON.parse\<close> keeps one value for each key. Numbers are
  only tested for being zero here, so an integer stands for them.
\<close>

datatype jsval =
    JUndefined
  | JNull
  | JBool bool
  | JNum int
  | JStr string
  | JArr "jsval list"
  | JObj "(string \<times> jsval) list"

definition truthy :: "jsval \<Rightarrow> bool" where
  "truthy v =
     (case v of
        JUndefined \<Rightarrow> False
      | JNull \<Rightarrow> False
      | JBool b \<Rightarrow> b
      | JNum n \<Rightarrow> n \<noteq> 0
      | JStr s \<Rightarrow> s \<noteq> ''''
      | JArr _ \<Rightarrow> True
      | JObj _ \<Rightarrow> True)"

text \<open>
  The property read \<open>v.name\<close>, for the names \<open>handleMessage\<close> reads (\<open>id\<close>, \<open>error\<close>,
  \<open>result\<close>, \<open>message\<close>, \<open>details\<close>): it throws on \<open>null\<close> and \<open>undefined\<close>, and no
  prototype of a primitive or of an array has one of these names.
\<close>

definition getprop :: "jsval \<Rightarrow> string \<Rightarrow> js_error + jsval" where
  "getprop v name =
     (case v of
        JUndefined \<Rightarrow> Inl TypeError
      | JNull \<Rightarrow> Inl TypeError
      | JObj kvs \<Rightarrow> Inr (case map_of kvs name of Some x \<Rightarrow> x | None \<Rightarrow> JUndefined)
      | _ \<Rightarrow> Inr JUndefined)"

text \<open>
  The same read where it cannot throw: on the response once its \<open>id\<close> has been read, and
  on a truthy \<open>error\<close>.
\<close>

definition prop_of :: "jsval \<Rightarrow> string \<Rightarrow> jsval" where
  "prop_of v name = (case getprop v name of Inr x \<Rightarrow> x | Inl e \<Rightarrow> JUndefined)"

subsection \<open>The state of a client\<close>

text \<open>
  Modelled from the spec: \<open>utils/errors.ts\<close> (the enum \<open>ErrorType\<close> and the class
  \<open>McpUnityError\<close>) is not among the sources. The three members are the ones this file
  uses, which are the three errors of the spec's taxonomy, and an error is the triple of
  arguments its constructor is called with: type, message, details.
\<close>

datatype ErrorType = CONNECTION | TOOL_EXECUTION | TIMEOUT

record McpUnityError =
  errorType :: ErrorType
  message :: jsval
  details :: jsval

text \<open>
  \<open>resolve\<close> and \<open>reject\<close> of a pending request are the two continuations of one promise,
  named by a handle; \<open>timeout\<close> is the handle of its timer.
\<close>

record PendingRequest =
  promise :: nat
  timeout :: nat

record UnityRequest =
  req_id :: "string option"
  req_method :: string
  req_params :: jsval

datatype readyState = CONNECTING | OPEN | CLOSING | CLOSED

text \<open>
  The socket the client holds in \<open>this.ws\<close>. Its four handlers are bound from its creation
  until \<open>disconnect\<close> unbinds them and drops the socket, so a socket that is not in
  \<open>this.ws\<close> calls nothing. The handlers close over the promise and the timer of the
  \<open>connect\<close> call that made the socket. \<open>close_throws\<close> says whether \<open>close()\<close> or
  \<open>terminate()\<close> of this socket throws.
\<close>

record WebSocket =
  readyState :: readyState
  connect_promise :: nat
  connectionTimeout :: nat
  close_throws :: bool

text \<open>
  What the client does to the outside, in order: calls of the logger (the level only), of
  \<open>setTimeout\<close> and \<open>clearTimeout\<close>, of the continuations of a promise, and of the socket
  library. \<open>WsNew port name\<close> is \<open>new WebSocket\<close> on the URL of that port with the client
  name for header and origin; \<open>WsUnbind\<close> sets the four handlers to \<open>null\<close>.
\<close>

datatype effect =
    Log level
  | SetTimeout nat nat
  | ClearTimeout nat
  | Resolve nat jsval
  | Reject nat McpUnityError
  | WsNew number string
  | WsUnbind
  | WsTerminate
  | WsClose
  | WsSend UnityRequest

text \<open>
  \<open>pendingRequests\<close> is a JavaScript \<open>Map\<close>: an association list in insertion order with
  one entry for each key. \<open>Map.set\<close> is \<open>AList.update\<close> (overwrite in place, or append),
  \<open>Map.delete\<close> is \<open>AList.delete\<close>, \<open>Map.get\<close> is \<open>map_of\<close>.
\<close>

record client =
  port :: number
  ws :: "WebSocket option"
  pendingRequests :: "(string \<times> PendingRequest) list"
  trace :: "effect list"

definition REQUEST_TIMEOUT :: nat where
  "REQUEST_TIMEOUT = 10000"

definition emit :: "effect list \<Rightarrow> client \<Rightarrow> client" where
  "emit es s = s\<lparr>trace := trace s @ es\<rparr>"

definition has :: "(string \<times> PendingRequest) list \<Rightarrow> string \<Rightarrow> bool" where
  "has m k = (map_of m k \<noteq> None)"

text \<open>The constructor: the port is resolved once; nothing is connected, nothing is pending.\<close>

definition constructed :: "number \<Rightarrow> level list \<Rightarrow> client" where
  "constructed p logs =
     \<lparr>port = p, ws = None, pendingRequests = [], trace = map Log (logs @ [Info])\<rparr>"


definition isConnected :: "client \<Rightarrow> bool" where
  "isConnected s = (case ws s of None \<Rightarrow> False | Some w \<Rightarrow> readyState w = OPEN)"

subsection \<open>\<open>disconnect\<close>, \<open>connect\<close>, \<open>reconnect\<close>, \<open>stop\<close>, \<open>start\<close>\<close>

definition connection_closed :: McpUnityError where
  "connection_closed =
     \<lparr>errorType = CONNECTION, message = JStr ''Connection closed'', details = JUndefined\<rparr>"

text \<open>
  The loop of \<open>disconnect\<close> over the entries of the map: cancel the timer, reject, delete
  the key. Deleting the entry just visited does not disturb the iteration of a \<open>Map\<close>.
\<close>

fun reject_all :: "(string \<times> PendingRequest) list \<Rightarrow> client \<Rightarrow> client" where
  "reject_all [] s = s"
| "reject_all ((k, request) # rest) s =
     reject_all rest
       (s\<lparr>trace := trace s @ [ClearTimeout (timeout request),
                                Reject (promise request) connection_closed],
          pendingRequests := AList.delete k (pendingRequests s)\<rparr>)"

text \<open>
  The \<open>try\<close> block of \<open>disconnect\<close>: \<open>terminate()\<close> for a socket that is still
  connecting, \<open>close()\<close> for an open one, nothing otherwise; an exception is logged.
\<close>

definition close_socket :: "WebSocket \<Rightarrow> effect list" where
  "close_socket w =
     (if readyState w = CONNECTING
      then WsTerminate # (if close_throws w then [Log Error] else [])
      else if readyState w = OPEN
      then WsClose # (if close_throws w then [Log Error] else [])
      else [])"

definition disconnect :: "client \<Rightarrow> client" where
  "disconnect s =
     (case ws s of
        None \<Rightarrow> s
      | Some w \<Rightarrow>
          (let s1 = emit [Log Debug, WsUnbind] s;
               s2 = emit (close_socket w) s1;
               s3 = s2\<lparr>ws := None\<rparr>
           in reject_all (pendingRequests s3) s3))"

text \<open>
  What a call of \<open>connect\<close> takes from outside: the handle of the promise it returns, the
  handle of its connection timer, and the socket the library creates. The constructor of the
  socket returns a socket in state \<open>CONNECTING\<close>; the URL is the same for every call on
  one client.
\<close>

record connect_env =
  new_promise :: nat
  new_timer :: nat
  new_close_throws :: bool

definition connect :: "client \<Rightarrow> string option \<Rightarrow> connect_env \<Rightarrow> client" where
  "connect s clientName fresh =
     (if isConnected s then emit [Log Debug, Resolve (new_promise fresh) JUndefined] s
      else
        (let s1 = disconnect s;
             s2 = emit [Log Debug,
                        WsNew (port s1) (case clientName of Some n \<Rightarrow> n | None \<Rightarrow> ''''),
                        SetTimeout (new_timer fresh) REQUEST_TIMEOUT] s1
         in s2\<lparr>ws := Some \<lparr>readyState = CONNECTING,
                             connect_promise = new_promise fresh,
                             connectionTimeout = new_timer fresh,
                             close_throws = new_close_throws fresh\<rparr>\<rparr>))"

definition reconnect :: "client \<Rightarrow> connect_env \<Rightarrow> client" where
  "reconnect s fresh = connect (disconnect s) None fresh"

definition stop :: "client \<Rightarrow> client" where
  "stop s = emit [Log Info] (disconnect s)"

text \<open>
  \<open>start\<close> awaits \<open>connect\<close>: the part before the await, the part run when the promise
  of \<open>connect\<close> is fulfilled, and the \<open>catch\<close> block run when it is rejected.
\<close>

definition start_begin :: "client \<Rightarrow> string option \<Rightarrow> connect_env \<Rightarrow> client" where
  "start_begin s clientName fresh = connect (emit [Log Info] s) clientName fresh"

definition start_connected :: "client \<Rightarrow> string option \<Rightarrow> client" where
  "start_connected s clientName =
     emit (Log Info #
           (case clientName of
              Some n \<Rightarrow> if n \<noteq> '''' then [Log Info] else []
            | None \<Rightarrow> [])) s"

definition start_failed :: "client \<Rightarrow> client" where
  "start_failed s = disconnect (emit [Log Warn, Log Warn] s)"

subsection \<open>\<open>handleMessage\<close>\<close>

text \<open>
  The argument is the outcome of \<open>JSON.parse(data)\<close>: the exception it throws or the value
  it returns. \<open>handleMessage_try\<close> is the body of the \<open>try\<close> block and \<open>handleMessage\<close>
  adds the \<open>catch\<close>, which logs. A key of the map is a string, so \<open>has\<close> and \<open>get\<close> find
  nothing for an \<open>id\<close> that is not a string.
\<close>

definition tool_error :: "jsval \<Rightarrow> McpUnityError" where
  "tool_error err =
     \<lparr>errorType = TOOL_EXECUTION,
      message = (if truthy (prop_of err ''message'') then prop_of err ''message''
                 else JStr ''Unknown error''),
      details = prop_of err ''details''\<rparr>"

definition complete :: "client \<Rightarrow> string \<Rightarrow> PendingRequest \<Rightarrow> jsval \<Rightarrow> client" where
  "complete s k request response =
     (let s1 = emit [ClearTimeout (timeout request)] s;
          s2 = s1\<lparr>pendingRequests := AList.delete k (pendingRequests s1)\<rparr>
      in if truthy (prop_of response ''error'')
         then emit [Reject (promise request) (tool_error (prop_of response ''error''))] s2
         else emit [Resolve (promise request) (prop_of response ''result'')] s2)"

definition handleMessage_try :: "client \<Rightarrow> js_error + jsval \<Rightarrow> js_error + client" where
  "handleMessage_try s parsed =
     (case parsed of
        Inl e \<Rightarrow> Inl e
      | Inr response \<Rightarrow>
          (case getprop response ''id'' of
             Inl e \<Rightarrow> Inl e
           | Inr (JStr k) \<Rightarrow>
               (if k \<noteq> '''' \<and> has (pendingRequests s) k
                then (case map_of (pendingRequests s) k of
                        Some request \<Rightarrow> Inr (complete s k request response)
                      | None \<Rightarrow> Inr s)
                else Inr s)
           | Inr _ \<Rightarrow> Inr s))"

definition handleMessage :: "client \<Rightarrow> js_error + jsval \<Rightarrow> client" where
  "handleMessage s parsed =
     (case handleMessage_try s parsed of
        Inr s' \<Rightarrow> s'
      | Inl e \<Rightarrow> emit [Log Error] s)"

subsection \<open>\<open>sendRequest\<close>\<close>

text \<open>
  \<open>sendRequest\<close> has an await in it. \<open>sendRequest_begin\<close> is the part before it: connect
  when not connected. When the promise of that \<open>connect\<close> is rejected the call is rejected
  with the same error and nothing more runs. Otherwise \<open>sendRequest_send\<close> runs: it chooses
  the identifier and runs the executor of the promise the call returns. Its arguments from
  outside are the string \<open>uuidv4()\<close> would return, the handle of the promise, the handle
  \<open>setTimeout\<close> returns, and the message of the exception that \<open>JSON.stringify\<close> or
  \<open>ws.send\<close> throws, if one does.
\<close>

definition sendRequest_begin :: "client \<Rightarrow> connect_env \<Rightarrow> client" where
  "sendRequest_begin s fresh =
     (if \<not> isConnected s then connect (emit [Log Info] s) None fresh else s)"

definition requestId_of :: "UnityRequest \<Rightarrow> string \<Rightarrow> string" where
  "requestId_of request uuid =
     (case req_id request of
        Some i \<Rightarrow> if i \<noteq> '''' then i else uuid
      | None \<Rightarrow> uuid)"

definition not_connected :: McpUnityError where
  "not_connected =
     \<lparr>errorType = CONNECTION, message = JStr ''Not connected to Unity'', details = JUndefined\<rparr>"

definition send_failed :: "string \<Rightarrow> McpUnityError" where
  "send_failed err =
     \<lparr>errorType = CONNECTION, message = JStr (''Send failed: '' @ err), details = JUndefined\<rparr>"

definition sendRequest_send ::
  "client \<Rightarrow> UnityRequest \<Rightarrow> string \<Rightarrow> nat \<Rightarrow> nat \<Rightarrow> string option \<Rightarrow> client" where
  "sendRequest_send s request uuid p t send_throws =
     (let requestId = requestId_of request uuid;
          msg = request\<lparr>req_id := Some requestId\<rparr>
      in if ws s = None \<or> \<not> isConnected s then emit [Reject p not_connected] s
         else
           (let s1 = emit [SetTimeout t REQUEST_TIMEOUT] s;
                s2 = s1\<lparr>pendingRequests :=
                          AList.update requestId \<lparr>promise = p, timeout = t\<rparr> (pendingRequests s1)\<rparr>
            in case send_throws of
                 None \<Rightarrow> emit [WsSend msg, Log Debug] s2
               | Some err \<Rightarrow>
                   emit [ClearTimeout t, Reject p (send_failed err)]
                     (s2\<lparr>pendingRequests := AList.delete requestId (pendingRequests s2)\<rparr>)))"

definition request_timed_out :: McpUnityError where
  "request_timed_out =
     \<lparr>errorType = TIMEOUT, message = JStr ''Request timed out'', details = JUndefined\<rparr>"

text \<open>
  The callback of the timer of a request, which closes over \<open>requestId\<close> and \<open>reject\<close>;
  \<open>fresh\<close> is for the \<open>connect\<close> inside \<open>reconnect\<close>.
\<close>

definition sendRequest_timeout :: "client \<Rightarrow> string \<Rightarrow> nat \<Rightarrow> connect_env \<Rightarrow> client" where
  "sendRequest_timeout s requestId p fresh =
     (let s1 = (if has (pendingRequests s) requestId
                then emit [Log Error, Reject p request_timed_out]
                       (s\<lparr>pendingRequests := AList.delete requestId (pendingRequests s)\<rparr>)
                else s)
      in reconnect s1 fresh)"

subsection \<open>The callbacks that \<open>connect\<close> installs\<close>

definition connection_timeout :: McpUnityError where
  "connection_timeout =
     \<lparr>errorType = CONNECTION, message = JStr ''Connection timeout'', details = JUndefined\<rparr>"

text \<open>
  The callback of the connection timer closes over \<open>reject\<close> of its own \<open>connect\<close> call
  but reads \<open>this.ws\<close>, whatever socket that is by then.
\<close>

definition connect_timeout :: "client \<Rightarrow> nat \<Rightarrow> client" where
  "connect_timeout s p =
     (case ws s of
        None \<Rightarrow> s
      | Some w \<Rightarrow>
          if readyState w = CONNECTING
          then emit [Reject p connection_timeout] (disconnect (emit [Log Warn] s))
          else s)"

definition connection_failed :: "string \<Rightarrow> McpUnityError" where
  "connection_failed err =
     \<lparr>errorType = CONNECTION,
      message = JStr (''Connection failed: '' @ (if err \<noteq> '''' then err else ''Unknown error'')),
      details = JUndefined\<rparr>"

definition onopen :: "client \<Rightarrow> client" where
  "onopen s =
     (case ws s of
        None \<Rightarrow> s
      | Some w \<Rightarrow>
          emit [ClearTimeout (connectionTimeout w), Log Debug,
                Resolve (connect_promise w) JUndefined] s)"

definition onerror :: "client \<Rightarrow> string \<Rightarrow> client" where
  "onerror s err =
     (case ws s of
        None \<Rightarrow> s
      | Some w \<Rightarrow>
          disconnect
            (emit [ClearTimeout (connectionTimeout w), Log Error,
                   Reject (connect_promise w) (connection_failed err)] s))"

definition onmessage :: "client \<Rightarrow> js_error + jsval \<Rightarrow> client" where
  "onmessage s parsed = (case ws s of None \<Rightarrow> s | Some w \<Rightarrow> handleMessage s parsed)"

definition onclose :: "client \<Rightarrow> client" where
  "onclose s = (case ws s of None \<Rightarrow> s | Some w \<Rightarrow> disconnect (emit [Log Debug] s))"

subsection \<open>Runs of a client\<close>

text \<open>
  All the code of the class runs in turns of one event loop. An event is one such turn: a
  call of a public method up to its await, the continuation of an await, a callback of a
  timer or of the socket, or the socket library changing \<open>readyState\<close> of the socket the
  client holds. A run is any sequence of events from a new client: no order is imposed
  on them, so every order the event loop can produce is among the runs.
\<close>

datatype event =
    Start "string option" connect_env
  | StartConnected "string option"
  | StartFailed
  | Stop
  | SendRequestBegin connect_env
  | SendRequestSend UnityRequest string nat nat "string option"
  | RequestTimeout string nat connect_env
  | ConnectTimeout nat
  | SetReadyState readyState
  | OnOpen
  | OnError string
  | OnMessage "js_error + jsval"
  | OnClose

fun step :: "client \<Rightarrow> event \<Rightarrow> client" where
  "step s (Start clientName fresh) = start_begin s clientName fresh"
| "step s (StartConnected clientName) = start_connected s clientName"
| "step s StartFailed = start_failed s"
| "step s Stop = stop s"
| "step s (SendRequestBegin fresh) = sendRequest_begin s fresh"
| "step s (SendRequestSend request uuid p t send_throws) =
     sendRequest_send s request uuid p t send_throws"
| "step s (RequestTimeout requestId p fresh) = sendRequest_timeout s requestId p fresh"
| "step s (ConnectTimeout p) = connect_timeout s p"
| "step s (SetReadyState r) =
     (case ws s of None \<Rightarrow> s | Some w \<Rightarrow> s\<lparr>ws := Some (w\<lparr>readyState := r\<rparr>)\<rparr>)"
| "step s OnOpen = onopen s"
| "step s (OnError err) = onerror s err"
| "step s (OnMessage parsed) = onmessage s parsed"
| "step s OnClose = onclose s"

definition run :: "client \<Rightarrow> event list \<Rightarrow> client" where
  "run s evs = foldl step s evs"

subsection \<open>Notions used to state the properties\<close>

text \<open>The invariant of the handle: no socket, no pending request.\<close>

definition handle_invariant :: "client \<Rightarrow> bool" where
  "handle_invariant s = (ws s = None \<longrightarrow> pendingRequests s = [])"

text \<open>What the loop of \<open>disconnect\<close> does for a list of entries, in their order.\<close>

definition closed_rejections :: "(string \<times> PendingRequest) list \<Rightarrow> effect list" where
  "closed_rejections es =
     concat (map (\<lambda>(k, r). [ClearTimeout (timeout r), Reject (promise r) connection_closed]) es)"

text \<open>The string identifier of a frame, when it parses and has one.\<close>

definition frame_id :: "js_error + jsval \<Rightarrow> string option" where
  "frame_id parsed =
     (case parsed of
        Inl e \<Rightarrow> None
      | Inr response \<Rightarrow>
          (case getprop response ''id'' of Inr (JStr k) \<Rightarrow> Some k | _ \<Rightarrow> None))"

text \<open>
  The second and third steps of the resolution, as the code takes them: the value of the
  platform probe when the probe returns a string that is not empty, else the default.
\<close>

definition platform_or_default :: "environment \<Rightarrow> number" where
  "platform_or_default e =
     (case fst (getPlatformSpecificPort e) of
        Inr v \<Rightarrow> if v \<noteq> '''' then parseInt v else DEFAULT_PORT
      | Inl err \<Rightarrow> DEFAULT_PORT)"

text \<open>
  The resolution in the words of the specification: the override when it is present and
  parseable as an integer, otherwise the platform value when there is one, otherwise the
  default.
\<close>

definition resolve_spec :: "environment \<Rightarrow> number" where
  "resolve_spec e =
     (case env_UNITY_PORT e of
        Some v \<Rightarrow> if parseInt v \<noteq> NaN then parseInt v else platform_or_default e
      | None \<Rightarrow> platform_or_default e)"




subsection \<open>Sample inputs\<close>

text \<open>
  A run in which \<open>sendRequest\<close> connects and the socket opens, and the same run followed by
  a request \<open>ping\<close> with the identifier \<open>X\<close>, sent and not yet answered.
\<close>

definition connect_events :: "event list" where
  "connect_events =
     [SendRequestBegin \<lparr>new_promise = 0, new_timer = 0, new_close_throws = False\<rparr>,
      SetReadyState OPEN,
      OnOpen]"

definition ping_events :: "event list" where
  "ping_events =
     connect_events @
     [SendRequestSend \<lparr>req_id = Some ''X'', req_method = ''ping'', req_params = JObj []\<rparr>
        ''110ec58a-a0f2-4ac4-8393-c866d813b8d1'' 1 1 None]"

definition opened :: client where
  "opened = run (constructed (Num 8090) []) connect_events"

definition awaiting_X :: client where
  "awaiting_X = run (constructed (Num 8090) []) ping_events"

text \<open>Environments of a resolution on macOS, on Linux and on Windows.\<close>

definition macos_env :: environment where
  "macos_env =
     \<lparr>env_UNITY_PORT = Some ''abc'', process_platform = Darwin,
      launchctl_getenv = Inr ''9000'', shell_profile_echo = Inr '''',
      printenv = Inr ''abc'', registry_UNITY_PORT = Inl (Thrown ''no registry'')\<rparr>"

definition linux_env :: environment where
  "linux_env =
     \<lparr>env_UNITY_PORT = None, process_platform = OtherPlatform,
      launchctl_getenv = Inl (Thrown ''no launchctl''), shell_profile_echo = Inr '''',
      printenv = Inl (Thrown ''Command failed: printenv UNITY_PORT''),
      registry_UNITY_PORT = Inl (Thrown ''no registry'')\<rparr>"

definition windows_env :: environment where
  "windows_env =
     \<lparr>env_UNITY_PORT = None, process_platform = Win32,
      launchctl_getenv = Inl (Thrown ''no launchctl''),
      shell_profile_echo = Inl (Thrown ''no bash''),
      printenv = Inl (Thrown ''no printenv''), registry_UNITY_PORT = Inr ''9000''\<rparr>"



section \<open>Properties\<close>

subsection \<open>Auxiliary facts about the operations\<close>

lemma emit_fields:
  "ws (emit es s) = ws s" "pendingRequests (emit es s) = pendingRequests s"
  "port (emit es s) = port s" "trace (emit es s) = trace s @ es"
  by (simp_all add: emit_def)

lemma reject_all_ws: "ws (reject_all es s) = ws s"
  by (induction es s rule: reject_all.induct) simp_all


lemma reject_all_pending:
  "pendingRequests (reject_all es s) = filter (\<lambda>(k, r). k \<notin> fst ` set es) (pendingRequests s)"
proof (induction es s rule: reject_all.induct)
  case (1 s)
  then show ?case by simp
next
  case (2 k request rest s)
  then show ?case
    by (auto simp: AList.delete_eq intro!: filter_cong)
qed

lemma reject_all_self: "pendingRequests (reject_all (pendingRequests s) s) = []"
  by (force simp: reject_all_pending filter_empty_conv)

lemma reject_all_trace: "trace (reject_all es s) = trace s @ closed_rejections es"
  by (induction es s rule: reject_all.induct) (simp_all add: closed_rejections_def)

lemma disconnect_None: "ws s = None \<Longrightarrow> disconnect s = s"
  by (simp add: disconnect_def)

lemma disconnect_ws: "ws (disconnect s) = None"
  by (simp add: disconnect_def Let_def reject_all_ws emit_fields split: option.splits)


lemma disconnect_pending_Some: "ws s = Some w \<Longrightarrow> pendingRequests (disconnect s) = []"
proof -
  assume w: "ws s = Some w"
  define s3 where "s3 = (emit (close_socket w) (emit [Log Debug, WsUnbind] s))\<lparr>ws := None\<rparr>"
  have "pendingRequests (reject_all (pendingRequests s3) s3) = []"
    by (rule reject_all_self)
  with w show ?thesis
    by (simp add: disconnect_def Let_def s3_def)
qed

lemma disconnect_trace_Some:
  "ws s = Some w \<Longrightarrow>
   trace (disconnect s) =
     trace s @ [Log Debug, WsUnbind] @ close_socket w @ closed_rejections (pendingRequests s)"
  by (simp add: disconnect_def Let_def reject_all_trace emit_fields)

lemma disconnect_pending: "handle_invariant s \<Longrightarrow> pendingRequests (disconnect s) = []"
  by (cases "ws s") (simp_all add: disconnect_None disconnect_pending_Some handle_invariant_def)

lemma inv_disconnect: "handle_invariant s \<Longrightarrow> handle_invariant (disconnect s)"
  by (simp add: handle_invariant_def disconnect_pending)

lemma inv_emit: "handle_invariant (emit es s) = handle_invariant s"
  by (simp add: handle_invariant_def emit_fields)

lemma inv_connect: "handle_invariant s \<Longrightarrow> handle_invariant (connect s n fresh)"
  by (simp add: connect_def Let_def handle_invariant_def emit_fields)

lemma connect_after_disconnect:
  "ws s = None \<Longrightarrow>
   connect s n fresh =
     (emit [Log Debug, WsNew (port s) (case n of Some x \<Rightarrow> x | None \<Rightarrow> ''''),
            SetTimeout (new_timer fresh) REQUEST_TIMEOUT] s)
     \<lparr>ws := Some \<lparr>readyState = CONNECTING, connect_promise = new_promise fresh,
                   connectionTimeout = new_timer fresh, close_throws = new_close_throws fresh\<rparr>\<rparr>"
  by (simp add: connect_def isConnected_def disconnect_None Let_def)

lemma inv_reconnect: "handle_invariant (reconnect s fresh)"
  by (simp add: reconnect_def connect_after_disconnect disconnect_ws handle_invariant_def)

lemma inv_stop: "handle_invariant s \<Longrightarrow> handle_invariant (stop s)"
  by (simp add: stop_def inv_emit inv_disconnect)

lemma inv_delete:
  "handle_invariant s \<Longrightarrow> handle_invariant (s\<lparr>pendingRequests := AList.delete k (pendingRequests s)\<rparr>)"
  by (simp add: handle_invariant_def)

lemma inv_complete: "handle_invariant s \<Longrightarrow> handle_invariant (complete s k r response)"
  by (simp add: complete_def Let_def handle_invariant_def emit_fields)

lemma inv_handleMessage: "handle_invariant s \<Longrightarrow> handle_invariant (handleMessage s parsed)"
  by (auto simp: handleMessage_def handleMessage_try_def inv_emit inv_complete
           split: sum.splits option.splits jsval.splits if_splits)

lemma inv_sendRequest_begin: "handle_invariant s \<Longrightarrow> handle_invariant (sendRequest_begin s fresh)"
  by (simp add: sendRequest_begin_def inv_connect inv_emit)

lemma inv_sendRequest_send:
  "handle_invariant s \<Longrightarrow> handle_invariant (sendRequest_send s request uuid p t st)"
  by (auto simp: sendRequest_send_def Let_def handle_invariant_def emit_fields isConnected_def
           split: option.splits)

lemma inv_sendRequest_timeout: "handle_invariant (sendRequest_timeout s k p fresh)"
  by (simp add: sendRequest_timeout_def Let_def inv_reconnect)

lemma inv_connect_timeout: "handle_invariant s \<Longrightarrow> handle_invariant (connect_timeout s p)"
  by (simp add: connect_timeout_def inv_emit inv_disconnect split: option.splits)

lemma inv_step: "handle_invariant s \<Longrightarrow> handle_invariant (step s ev)"
proof (cases ev)
  case (SetReadyState r)
  assume "handle_invariant s"
  with SetReadyState show ?thesis
    by (simp add: handle_invariant_def split: option.splits)
qed (simp_all add: start_begin_def start_connected_def start_failed_def inv_connect inv_emit
       inv_disconnect inv_stop inv_sendRequest_begin inv_sendRequest_send
       inv_sendRequest_timeout inv_connect_timeout onopen_def onerror_def onmessage_def
       onclose_def inv_handleMessage split: option.splits)

lemma inv_foldl: "handle_invariant s \<Longrightarrow> handle_invariant (foldl step s evs)"
  by (induction evs arbitrary: s) (simp_all add: inv_step)

lemma inv_constructed: "handle_invariant (constructed p logs)"
  by (simp add: handle_invariant_def constructed_def)

lemma inv_run: "handle_invariant (run (constructed p logs) evs)"
  by (simp add: run_def inv_foldl inv_constructed)

lemma has_iff: "has m k = (k \<in> fst ` set m)"
  by (simp add: has_def map_of_eq_None_iff)

lemma isConnected_ws: "isConnected s \<Longrightarrow> ws s \<noteq> None"
  by (auto simp: isConnected_def split: option.splits)

lemma parseInt_9999: "parseInt ''9999'' = Num 9999"
  by (simp add: parseInt_def is_space_def is_digit_def digits_value_def)

lemma parseInt_empty: "parseInt '''' = NaN"
  by (simp add: parseInt_def)

lemmas string_defs = parseInt_def trim_def is_space_def is_digit_def digits_value_def

lemmas resolver_defs =
  determinePort_def getPlatformSpecificPort_def getUnityPortFromMacOS_def
  getUnityPortFromUnixRegistry_def getUnityPortFromWindowsRegistry_def regKey_get_def
  run_queued_def registry_callback_def platform_or_default_def resolve_spec_def
  DEFAULT_PORT_def Let_def macos_env_def linux_env_def windows_env_def

lemmas model_defs =
  run_def constructed_def sendRequest_begin_def sendRequest_send_def sendRequest_timeout_def
  connect_def disconnect_def reconnect_def isConnected_def emit_def onopen_def stop_def
  requestId_of_def REQUEST_TIMEOUT_def close_socket_def Let_def connection_closed_def
  request_timed_out_def send_failed_def has_def handleMessage_def handleMessage_try_def
  complete_def tool_error_def getprop_def prop_of_def truthy_def frame_id_def
  closed_rejections_def connect_events_def ping_events_def opened_def awaiting_X_def


subsection \<open>The endpoint resolver\<close>

text \<open>
  C2, priority of the resolution. The override is used whenever it is present and not empty:
  the result is then \<open>parseInt\<close> of it, which is \<open>NaN\<close> when it does not start with
  digits, and the platform store is not consulted. Otherwise the result is \<open>parseInt\<close> of
  the platform value when the probe returns a string that is not empty, and 8090 when the
  probe returns the empty string or throws. So the override \<open>9999\<close> gives 9999 whatever
  the platform store holds, no override and no platform value give 8090, and the result is
  the one the specification words whenever the override is absent, empty or parseable.
\<close>

theorem determinePort_priority:
  "fst (determinePort e) =
     Inr (case env_UNITY_PORT e of
            Some v \<Rightarrow> if v \<noteq> '''' then parseInt v else platform_or_default e
          | None \<Rightarrow> platform_or_default e) \<and>
   (env_UNITY_PORT e = Some ''9999'' \<longrightarrow> fst (determinePort e) = Inr (Num 9999)) \<and>
   (env_UNITY_PORT e = None \<and>
    (case fst (getPlatformSpecificPort e) of Inr v \<Rightarrow> v = '''' | Inl err \<Rightarrow> True) \<longrightarrow>
      fst (determinePort e) = Inr (Num 8090)) \<and>
   ((case env_UNITY_PORT e of Some v \<Rightarrow> v = '''' \<or> parseInt v \<noteq> NaN | None \<Rightarrow> True) \<longrightarrow>
      fst (determinePort e) = Inr (resolve_spec e))"
proof -
  have main: "fst (determinePort e) =
     Inr (case env_UNITY_PORT e of
            Some v \<Rightarrow> if v \<noteq> '''' then parseInt v else platform_or_default e
          | None \<Rightarrow> platform_or_default e)"
    by (simp add: determinePort_def platform_or_default_def
             split: option.splits prod.splits sum.splits)
  show ?thesis
    unfolding main
    by (auto simp: parseInt_9999 parseInt_empty platform_or_default_def DEFAULT_PORT_def
               resolve_spec_def
             split: option.splits sum.splits)
qed

theorem determinePort_priority_witness:
  "env_UNITY_PORT (macos_env\<lparr>env_UNITY_PORT := Some ''9999''\<rparr>) = Some ''9999'' \<and>
   fst (determinePort (macos_env\<lparr>env_UNITY_PORT := Some ''9999''\<rparr>)) = Inr (Num 9999) \<and>
   env_UNITY_PORT linux_env = None \<and>
   fst (getPlatformSpecificPort linux_env) = Inl (Thrown ''Command failed: printenv UNITY_PORT'') \<and>
   fst (determinePort linux_env) = Inr (Num 8090) \<and>
   resolve_spec linux_env = Num 8090"
  using determinePort_priority [of "macos_env\<lparr>env_UNITY_PORT := Some ''9999''\<rparr>"]
    determinePort_priority [of linux_env]
  by (simp add: resolver_defs)

text \<open>
  Where the claim as worded fails: on macOS with the override \<open>abc\<close> and the launchd value
  9000, the specification's words give 9000 and the code gives \<open>NaN\<close>.
\<close>

theorem determinePort_priority_counterexample:
  "fst (determinePort macos_env) = Inr NaN \<and> resolve_spec macos_env = Num 9000"
  by (simp add: resolver_defs string_defs)



text \<open>
  C8, the registry value on Windows. The claim does not hold of the code: with no override
  and the value 9000 under \<open>UNITY_PORT\<close> in the registry key of the user,
  \<open>getUnityPortFromWindowsRegistry\<close> returns the empty string, because the callback that
  would store the value runs after the return, and \<open>determinePort\<close> returns the default
  8090. Run afterwards, the callback does set \<open>result\<close> to 9000.
\<close>

theorem windows_registry_value_is_not_used:
  "determinePort windows_env = (Inr (Num 8090), []) \<and>
   registry_UNITY_PORT windows_env = Inr ''9000'' \<and>
   parseInt ''9000'' = Num 9000 \<and>
   fst (getUnityPortFromWindowsRegistry windows_env) = '''' \<and>
   result (run_queued (snd (getUnityPortFromWindowsRegistry windows_env))) = ''9000''"
  by (simp add: resolver_defs string_defs)


subsection \<open>The bridge client\<close>

text \<open>
  C9, the invariant of the handle. In every state of every run of a client, a \<open>null\<close>
  socket handle comes with an empty table of pending requests; and each operation on its
  own (an event of a run, \<open>connect\<close>, \<open>disconnect\<close>, \<open>reconnect\<close>, \<open>stop\<close>,
  \<open>handleMessage\<close>, both parts of \<open>sendRequest\<close>, the firing of a request timer) keeps
  the invariant.
\<close>

theorem no_socket_no_pending_request:
  "handle_invariant (run (constructed prt logs) evs) \<and>
   (handle_invariant s \<longrightarrow>
      handle_invariant (step s ev) \<and>
      handle_invariant (connect s n fresh) \<and>
      handle_invariant (disconnect s) \<and>
      handle_invariant (reconnect s fresh) \<and>
      handle_invariant (stop s) \<and>
      handle_invariant (handleMessage s parsed) \<and>
      handle_invariant (sendRequest_begin s fresh) \<and>
      handle_invariant (sendRequest_send s request uuid p t send_throws) \<and>
      handle_invariant (sendRequest_timeout s k p fresh))"
  by (simp add: inv_run inv_step inv_connect inv_disconnect inv_reconnect inv_stop
        inv_handleMessage inv_sendRequest_begin inv_sendRequest_send inv_sendRequest_timeout)

theorem no_socket_no_pending_request_witness:
  "ws (run (constructed (Num 8090) []) (ping_events @ [OnClose])) = None \<and>
   pendingRequests (run (constructed (Num 8090) []) (ping_events @ [OnClose])) = [] \<and>
   ws (constructed (Num 8090) []) = None \<and>
   pendingRequests (constructed (Num 8090) []) = [] \<and>
   ws (step (constructed (Num 8090) []) Stop) = None \<and>
   pendingRequests (step (constructed (Num 8090) []) Stop) = []"
  using no_socket_no_pending_request
    [of "Num 8090" "[]" "ping_events @ [OnClose]" "constructed (Num 8090) []" Stop]
  by (simp add: model_defs onclose_def)




text \<open>
  C4, \<open>stop\<close>. In a state of a run, \<open>stop\<close> leaves the table empty and the client not
  connected; for every request that was pending it cancels the timer and rejects the promise
  with the \<open>CONNECTION\<close> error \<open>Connection closed\<close>, after having unbound and closed the
  socket; and a second \<open>stop\<close> changes nothing and only logs again.
\<close>

theorem stop_rejects_every_pending_request:
  assumes "s = run (constructed prt logs) evs"
  shows "pendingRequests (stop s) = [] \<and> ws (stop s) = None \<and> \<not> isConnected (stop s) \<and>
         (\<forall>(k, r) \<in> set (pendingRequests s).
            \<exists>before after.
              trace (stop s) =
                trace s @ before @
                [ClearTimeout (timeout r), Reject (promise r) connection_closed] @ after) \<and>
         errorType connection_closed = CONNECTION \<and>
         (\<forall>w. ws s = Some w \<longrightarrow>
            trace (stop s) =
              trace s @ [Log Debug, WsUnbind] @ close_socket w @
              closed_rejections (pendingRequests s) @ [Log Info]) \<and>
         ws (stop (stop s)) = ws (stop s) \<and>
         pendingRequests (stop (stop s)) = pendingRequests (stop s) \<and>
         trace (stop (stop s)) = trace (stop s) @ [Log Info]"
proof -
  have inv: "handle_invariant s"
    using assms by (simp add: inv_run)
  have p: "pendingRequests (stop s) = []"
    using inv by (simp add: stop_def emit_fields disconnect_pending)
  have w: "ws (stop s) = None"
    by (simp add: stop_def emit_fields disconnect_ws)
  have c: "\<not> isConnected (stop s)"
    using w by (simp add: isConnected_def)
  have twice: "disconnect (stop s) = stop s"
    using w by (rule disconnect_None)
  have each: "\<exists>before after.
              trace (stop s) =
                trace s @ before @
                [ClearTimeout (timeout r), Reject (promise r) connection_closed] @ after"
    if mem: "(k, r) \<in> set (pendingRequests s)" for k r
  proof -
    from mem inv obtain sock where sock: "ws s = Some sock"
      by (cases "ws s") (auto simp: handle_invariant_def)
    from mem obtain xs ys where split: "pendingRequests s = xs @ (k, r) # ys"
      by (auto simp: in_set_conv_decomp)
    have "trace (stop s) =
            trace s @ ([Log Debug, WsUnbind] @ close_socket sock @ closed_rejections xs) @
            [ClearTimeout (timeout r), Reject (promise r) connection_closed] @
            (closed_rejections ys @ [Log Info])"
      using sock split
      by (simp add: stop_def emit_fields disconnect_trace_Some closed_rejections_def)
    then show ?thesis by blast
  qed
  have tr: "trace (stop s) =
              trace s @ [Log Debug, WsUnbind] @ close_socket w' @
              closed_rejections (pendingRequests s) @ [Log Info]"
    if "ws s = Some w'" for w'
    using that by (simp add: stop_def emit_fields disconnect_trace_Some)
  have e: "errorType connection_closed = CONNECTION"
    by (simp add: connection_closed_def)
  have i1: "ws (stop (stop s)) = ws (stop s)"
    by (simp add: stop_def emit_fields disconnect_ws)
  have i2: "pendingRequests (stop (stop s)) = pendingRequests (stop s)"
    using twice by (simp add: stop_def [of "stop s"] emit_fields)
  have i3: "trace (stop (stop s)) = trace (stop s) @ [Log Info]"
    using twice by (simp add: stop_def [of "stop s"] emit_fields)
  from p w c each tr e i1 i2 i3 show ?thesis
    by blast
qed

theorem stop_rejects_every_pending_request_witness:
  "(''X'', \<lparr>promise = 1, timeout = 1\<rparr>) \<in> set (pendingRequests awaiting_X) \<and>
   ws awaiting_X =
     Some \<lparr>readyState = OPEN, connect_promise = 0, connectionTimeout = 0,
           close_throws = False\<rparr> \<and>
   pendingRequests (stop awaiting_X) = [] \<and>
   ws (stop awaiting_X) = None \<and>
   trace (stop awaiting_X) =
     trace awaiting_X @
     [Log Debug, WsUnbind, WsClose, ClearTimeout 1,
      Reject 1 \<lparr>errorType = CONNECTION, message = JStr ''Connection closed'',
                details = JUndefined\<rparr>,
      Log Info]"
  using stop_rejects_every_pending_request [OF awaiting_X_def]
  by (simp add: model_defs)


text \<open>
  C3, a response that matches. When the \<open>id\<close> of the frame is a string that is not empty
  and is a key of the table, \<open>handleMessage\<close> cancels the timer of that entry, removes
  the entry, leaves the socket alone, and settles the promise: with the \<open>result\<close> of the
  frame when its \<open>error\<close> is absent or falsy, and otherwise with an error of the fixed
  type \<open>TOOL_EXECUTION\<close> that carries the \<open>message\<close> of the frame's error, or
  \<open>Unknown error\<close> when that message is absent or falsy, and its \<open>details\<close>. The
  \<open>type\<close> of the frame's error is not read.
\<close>

theorem matching_response_completes_request:
  assumes "getprop response ''id'' = Inr (JStr k)"
    and "k \<noteq> ''''"
    and "map_of (pendingRequests s) k = Some request"
  shows "pendingRequests (handleMessage s (Inr response)) = AList.delete k (pendingRequests s) \<and>
         map_of (pendingRequests (handleMessage s (Inr response))) k = None \<and>
         ws (handleMessage s (Inr response)) = ws s \<and>
         trace (handleMessage s (Inr response)) =
           trace s @
           [ClearTimeout (timeout request),
            if truthy (prop_of response ''error'')
            then Reject (promise request)
                   \<lparr>errorType = TOOL_EXECUTION,
                    message = (if truthy (prop_of (prop_of response ''error'') ''message'')
                               then prop_of (prop_of response ''error'') ''message''
                               else JStr ''Unknown error''),
                    details = prop_of (prop_of response ''error'') ''details''\<rparr>
            else Resolve (promise request) (prop_of response ''result'')]"
proof -
  have hm: "handleMessage s (Inr response) = complete s k request response"
    using assms by (simp add: handleMessage_def handleMessage_try_def has_def)
  show ?thesis
    unfolding hm
    by (simp add: complete_def Let_def emit_fields tool_error_def AList.delete_conv')
qed

theorem matching_response_completes_request_witness:
  "getprop (JObj [(''jsonrpc'', JStr ''2.0''), (''id'', JStr ''X''),
                  (''error'', JObj [(''message'', JStr ''bad op''),
                                    (''type'', JStr ''TOOL_EXECUTION'')])]) ''id'' =
     Inr (JStr ''X'') \<and>
   map_of (pendingRequests awaiting_X) ''X'' = Some \<lparr>promise = 1, timeout = 1\<rparr> \<and>
   pendingRequests
     (handleMessage awaiting_X
        (Inr (JObj [(''jsonrpc'', JStr ''2.0''), (''id'', JStr ''X''),
                    (''error'', JObj [(''message'', JStr ''bad op''),
                                      (''type'', JStr ''TOOL_EXECUTION'')])]))) = [] \<and>
   trace
     (handleMessage awaiting_X
        (Inr (JObj [(''jsonrpc'', JStr ''2.0''), (''id'', JStr ''X''),
                    (''error'', JObj [(''message'', JStr ''bad op''),
                                      (''type'', JStr ''TOOL_EXECUTION'')])]))) =
     trace awaiting_X @
     [ClearTimeout 1,
      Reject 1 \<lparr>errorType = TOOL_EXECUTION, message = JStr ''bad op'', details = JUndefined\<rparr>]"
proof -
  have h1: "getprop (JObj [(''jsonrpc'', JStr ''2.0''), (''id'', JStr ''X''),
                  (''error'', JObj [(''message'', JStr ''bad op''),
                                    (''type'', JStr ''TOOL_EXECUTION'')])]) ''id'' =
     Inr (JStr ''X'')"
    by (simp add: getprop_def)
  have h2: "''X'' \<noteq> ''''"
    by simp
  have h3: "map_of (pendingRequests awaiting_X) ''X'' = Some \<lparr>promise = 1, timeout = 1\<rparr>"
    by (simp add: model_defs)
  have p: "pendingRequests awaiting_X = [(''X'', \<lparr>promise = 1, timeout = 1\<rparr>)]"
    by (simp add: model_defs)
  show ?thesis
    using h1 h3 matching_response_completes_request [OF h1 h2 h3]
    by (simp add: p getprop_def prop_of_def truthy_def)
qed

text \<open>
  Where the claim as worded fails: a frame whose error has an empty message is rejected with
  the message \<open>Unknown error\<close>, and two frames that differ only in the type of their error
  lead to the same state, rejection included.
\<close>

theorem matching_response_completes_request_counterexample:
  "trace
     (handleMessage awaiting_X
        (Inr (JObj [(''jsonrpc'', JStr ''2.0''), (''id'', JStr ''X''),
                    (''error'', JObj [(''message'', JStr ''''),
                                      (''type'', JStr ''validation_error'')])]))) =
     trace awaiting_X @
     [ClearTimeout 1,
      Reject 1 \<lparr>errorType = TOOL_EXECUTION, message = JStr ''Unknown error'',
                details = JUndefined\<rparr>] \<and>
   handleMessage awaiting_X
        (Inr (JObj [(''jsonrpc'', JStr ''2.0''), (''id'', JStr ''X''),
                    (''error'', JObj [(''message'', JStr ''bad op''),
                                      (''type'', JStr ''validation_error'')])])) =
   handleMessage awaiting_X
        (Inr (JObj [(''jsonrpc'', JStr ''2.0''), (''id'', JStr ''X''),
                    (''error'', JObj [(''message'', JStr ''bad op''),
                                      (''type'', JStr ''internal_error'')])]))"
  by (simp add: model_defs)

text \<open>
  C5, a frame that matches nothing. When the frame does not parse, or has no string
  \<open>id\<close>, or has an \<open>id\<close> that is not a key of the table, \<open>handleMessage\<close> leaves the
  socket, the table and the port as they are; the body of its \<open>try\<close> block either returns
  with the state unchanged or throws, and then the \<open>catch\<close> block only logs the error.
\<close>

theorem unmatched_frame_is_inert:
  assumes "\<forall>k. frame_id parsed = Some k \<longrightarrow> \<not> has (pendingRequests s) k"
  shows "ws (handleMessage s parsed) = ws s \<and>
         pendingRequests (handleMessage s parsed) = pendingRequests s \<and>
         port (handleMessage s parsed) = port s \<and>
         (trace (handleMessage s parsed) = trace s \<or>
          trace (handleMessage s parsed) = trace s @ [Log Error]) \<and>
         (handleMessage_try s parsed = Inr s \<and> handleMessage s parsed = s \<or>
          (\<exists>e. handleMessage_try s parsed = Inl e) \<and>
          handleMessage s parsed = emit [Log Error] s)"
proof -
  have "handleMessage_try s parsed = Inr s \<or> (\<exists>e. handleMessage_try s parsed = Inl e)"
    using assms
    by (auto simp: handleMessage_try_def frame_id_def split: sum.splits jsval.splits)
  then show ?thesis
    by (auto simp: handleMessage_def emit_fields)
qed

theorem unmatched_frame_is_inert_witness:
  "frame_id (Inr (JObj [(''jsonrpc'', JStr ''2.0''), (''id'', JStr ''Z''),
                        (''result'', JStr ''pong'')])) = Some ''Z'' \<and>
   \<not> has (pendingRequests awaiting_X) ''Z'' \<and>
   handleMessage awaiting_X
     (Inr (JObj [(''jsonrpc'', JStr ''2.0''), (''id'', JStr ''Z''),
                 (''result'', JStr ''pong'')])) = awaiting_X \<and>
   frame_id (Inl (Thrown ''Unexpected end of JSON input'')) = None \<and>
   handleMessage awaiting_X (Inl (Thrown ''Unexpected end of JSON input'')) =
     emit [Log Error] awaiting_X \<and>
   pendingRequests (handleMessage awaiting_X (Inl (Thrown ''Unexpected end of JSON input''))) =
     [(''X'', \<lparr>promise = 1, timeout = 1\<rparr>)]"
proof -
  have h1: "\<forall>k. frame_id (Inr (JObj [(''jsonrpc'', JStr ''2.0''), (''id'', JStr ''Z''),
                        (''result'', JStr ''pong'')])) = Some k \<longrightarrow>
                \<not> has (pendingRequests awaiting_X) k"
    by (simp add: model_defs)
  have h2: "\<forall>k. frame_id (Inl (Thrown ''Unexpected end of JSON input'')) = Some k \<longrightarrow>
                \<not> has (pendingRequests awaiting_X) k"
    by (simp add: frame_id_def)
  have p: "pendingRequests awaiting_X = [(''X'', \<lparr>promise = 1, timeout = 1\<rparr>)]"
    by (simp add: model_defs)
  show ?thesis
    using unmatched_frame_is_inert [OF h1] unmatched_frame_is_inert [OF h2] p
    by (simp add: frame_id_def getprop_def has_def handleMessage_def handleMessage_try_def)
qed

text \<open>
  C6, a write that throws. When the client is connected and \<open>JSON.stringify\<close> or
  \<open>ws.send\<close> throws, \<open>sendRequest\<close> sets the timer, cancels it, and rejects the call
  with a \<open>CONNECTION\<close> error; nothing is sent and nothing is tried again; the socket is
  kept. The table ends as the table before the call without the identifier of the call: the
  same table when that identifier was not pending, and otherwise the table without the
  earlier entry of that identifier, which the call has overwritten.
\<close>

theorem send_failure_cleans_up:
  assumes "isConnected s"
  shows "trace (sendRequest_send s request uuid p t (Some err)) =
           trace s @ [SetTimeout t REQUEST_TIMEOUT, ClearTimeout t, Reject p (send_failed err)] \<and>
         errorType (send_failed err) = CONNECTION \<and>
         map_of (pendingRequests (sendRequest_send s request uuid p t (Some err)))
           (requestId_of request uuid) = None \<and>
         pendingRequests (sendRequest_send s request uuid p t (Some err)) =
           AList.delete (requestId_of request uuid) (pendingRequests s) \<and>
         (\<not> has (pendingRequests s) (requestId_of request uuid) \<longrightarrow>
            pendingRequests (sendRequest_send s request uuid p t (Some err)) = pendingRequests s) \<and>
         ws (sendRequest_send s request uuid p t (Some err)) = ws s"
proof -
  from assms have w: "ws s \<noteq> None"
    by (rule isConnected_ws)
  show ?thesis
    using assms w
    by (simp add: sendRequest_send_def Let_def emit_fields send_failed_def
          AList.delete_update_same AList.delete_conv' has_iff)
qed

theorem send_failure_cleans_up_witness:
  "isConnected awaiting_X \<and>
   \<not> has (pendingRequests awaiting_X) ''Y'' \<and>
   trace (sendRequest_send awaiting_X
            \<lparr>req_id = Some ''Y'', req_method = ''fail'', req_params = JObj []\<rparr>
            ''7c9e6679-7425-40de-944b-e07fc1f90ae7'' 2 2 (Some ''socket write failed'')) =
     trace awaiting_X @
     [SetTimeout 2 10000, ClearTimeout 2,
      Reject 2 \<lparr>errorType = CONNECTION, message = JStr ''Send failed: socket write failed'',
                details = JUndefined\<rparr>] \<and>
   pendingRequests (sendRequest_send awaiting_X
            \<lparr>req_id = Some ''Y'', req_method = ''fail'', req_params = JObj []\<rparr>
            ''7c9e6679-7425-40de-944b-e07fc1f90ae7'' 2 2 (Some ''socket write failed'')) =
     pendingRequests awaiting_X"
proof -
  have h: "isConnected awaiting_X"
    by (simp add: model_defs)
  have n: "\<not> has (pendingRequests awaiting_X) ''Y''"
    by (simp add: model_defs)
  have p: "pendingRequests awaiting_X = [(''X'', \<lparr>promise = 1, timeout = 1\<rparr>)]"
    by (simp add: model_defs)
  show ?thesis
    using h n send_failure_cleans_up [OF h,
        of "\<lparr>req_id = Some ''Y'', req_method = ''fail'', req_params = JObj []\<rparr>"
           "''7c9e6679-7425-40de-944b-e07fc1f90ae7''" 2 2 "''socket write failed''"]
    by (simp add: p requestId_of_def send_failed_def REQUEST_TIMEOUT_def)
qed

text \<open>
  Where the claim as worded fails: while \<open>X\<close> is pending, a second call with the
  identifier \<open>X\<close> whose write throws leaves the table empty, not as it was.
\<close>

theorem send_failure_cleans_up_counterexample:
  "isConnected awaiting_X \<and>
   pendingRequests awaiting_X = [(''X'', \<lparr>promise = 1, timeout = 1\<rparr>)] \<and>
   pendingRequests (sendRequest_send awaiting_X
            \<lparr>req_id = Some ''X'', req_method = ''ping'', req_params = JObj []\<rparr>
            ''7c9e6679-7425-40de-944b-e07fc1f90ae7'' 2 2
            (Some ''Converting circular structure to JSON'')) = []"
  by (simp add: model_defs)

text \<open>
  C10, the empty identifier. Given that \<open>uuidv4()\<close> returns a string that is not empty, a
  call whose \<open>id\<close> is the empty string is registered and transmitted under the generated
  identifier and the entry of the empty string, if any, is not touched; and
  \<open>handleMessage\<close>, in any state, does nothing at all for a frame whose \<open>id\<close> is the
  empty string.
\<close>

theorem empty_id_is_replaced_and_never_matched:
  assumes "uuid \<noteq> ''''"
    and "req_id request = Some ''''"
    and "isConnected s"
  shows "requestId_of request uuid = uuid \<and>
         requestId_of request uuid \<noteq> '''' \<and>
         map_of (pendingRequests (sendRequest_send s request uuid p t None)) uuid =
           Some \<lparr>promise = p, timeout = t\<rparr> \<and>
         map_of (pendingRequests (sendRequest_send s request uuid p t None)) '''' =
           map_of (pendingRequests s) '''' \<and>
         trace (sendRequest_send s request uuid p t None) =
           trace s @ [SetTimeout t REQUEST_TIMEOUT, WsSend (request\<lparr>req_id := Some uuid\<rparr>),
                      Log Debug] \<and>
         (frame_id parsed = Some '''' \<longrightarrow> handleMessage s' parsed = s')"
proof -
  have rid: "requestId_of request uuid = uuid"
    using assms(2) by (simp add: requestId_of_def)
  from assms(3) have w: "ws s \<noteq> None"
    by (rule isConnected_ws)
  have hm: "handleMessage s' parsed = s'" if "frame_id parsed = Some ''''"
    using that
    by (auto simp: handleMessage_def handleMessage_try_def frame_id_def
             split: sum.splits jsval.splits)
  show ?thesis
    using assms w hm
    by (simp add: sendRequest_send_def rid Let_def emit_fields AList.update_conv')
qed

theorem empty_id_is_replaced_and_never_matched_witness:
  "''7c9e6679-7425-40de-944b-e07fc1f90ae7'' \<noteq> '''' \<and>
   isConnected opened \<and>
   pendingRequests (sendRequest_send opened
       \<lparr>req_id = Some '''', req_method = ''ping'', req_params = JObj []\<rparr>
       ''7c9e6679-7425-40de-944b-e07fc1f90ae7'' 1 1 None) =
     [(''7c9e6679-7425-40de-944b-e07fc1f90ae7'', \<lparr>promise = 1, timeout = 1\<rparr>)] \<and>
   trace (sendRequest_send opened
       \<lparr>req_id = Some '''', req_method = ''ping'', req_params = JObj []\<rparr>
       ''7c9e6679-7425-40de-944b-e07fc1f90ae7'' 1 1 None) =
     trace opened @
     [SetTimeout 1 10000,
      WsSend \<lparr>req_id = Some ''7c9e6679-7425-40de-944b-e07fc1f90ae7'', req_method = ''ping'',
              req_params = JObj []\<rparr>,
      Log Debug] \<and>
   frame_id (Inr (JObj [(''jsonrpc'', JStr ''2.0''), (''id'', JStr ''''),
                        (''result'', JStr ''pong'')])) = Some '''' \<and>
   handleMessage awaiting_X
     (Inr (JObj [(''jsonrpc'', JStr ''2.0''), (''id'', JStr ''''),
                 (''result'', JStr ''pong'')])) = awaiting_X"
proof -
  have h1: "''7c9e6679-7425-40de-944b-e07fc1f90ae7'' \<noteq> ''''"
    by simp
  have h2: "req_id \<lparr>req_id = Some '''', req_method = ''ping'', req_params = JObj []\<rparr> = Some ''''"
    by simp
  have h3: "isConnected opened"
    by (simp add: model_defs)
  have f: "frame_id (Inr (JObj [(''jsonrpc'', JStr ''2.0''), (''id'', JStr ''''),
                        (''result'', JStr ''pong'')])) = Some ''''"
    by (simp add: frame_id_def getprop_def)
  have o: "pendingRequests opened = []"
    by (simp add: model_defs)
  show ?thesis
    using h3 f o
      empty_id_is_replaced_and_never_matched [OF h1 h2 h3, of 1 1
        "Inr (JObj [(''jsonrpc'', JStr ''2.0''), (''id'', JStr ''''),
                    (''result'', JStr ''pong'')])" awaiting_X]
    by (simp add: sendRequest_send_def isConnected_ws requestId_of_def Let_def emit_def
          REQUEST_TIMEOUT_def)
qed


end
